theory Spec2Isabelle
  imports Main "HOL-Library.Monad_Syntax"
begin

section \<open>The B+ tree of pkg/datastructures/bplus\_tree.go\<close>

text \<open>
  The Go program builds a graph of \<^verbatim>\<open>*TreeNode\<close> objects linked by three kinds of
  pointers: \<^verbatim>\<open>children\<close> (owning), \<^verbatim>\<open>parent\<close> (back reference) and \<^verbatim>\<open>next\<close> (the leaf
  chain).  All of them are mutated in place, so the model keeps an explicit store: a list
  of nodes, a pointer being the index of a node in that list and \<^verbatim>\<open>nil\<close> being \<open>None\<close>.
  Nodes are never freed (Go is garbage collected); allocation appends to the store.

  Every function that reads or writes the store returns an \<open>option\<close>: \<open>None\<close> stands for
  a call that does not return normally, that is a run-time panic (index out of range, nil
  dereference, an explicit \<^verbatim>\<open>panic(...)\<close>) or a loop that never exits.  Slices are lists;
  every slice of the program has a backing array of its own (all cross-node transfers go
  through \<^verbatim>\<open>append\<close> onto a fresh or privately owned slice), so no aliasing between the
  lists of different nodes has to be modelled.  Reslicing beyond the length of a slice is
  modelled as a panic (capacities are not modelled).

  Keys and values have the Go type \<^verbatim>\<open>any\<close>.  A key argument of the public operations is a
  \<open>'k option\<close>, \<open>None\<close> being \<^verbatim>\<open>nil\<close>; keys stored in nodes are never nil (\<^verbatim>\<open>Insert\<close> rejects
  them), so they have type \<open>'k\<close>.  The lock \<^verbatim>\<open>mu\<close> is not modelled: every operation holds
  it from entry to exit.  \<^verbatim>\<open>count\<close> is an \<^verbatim>\<open>int64\<close> that counts stored entries and cannot
  leave its range before memory is exhausted; it is an \<open>int\<close> here.
\<close>

subsection \<open>Data\<close>

type_synonym addr = nat

record ('k, 'v) KeyValue =
  Key :: 'k
  Value :: 'v

record ('k, 'v) TreeNode =
  keys :: "'k list"
  "values" :: "('k, 'v) KeyValue list"
  children :: "addr list"
  isLeaf :: bool
  "next" :: "addr option"
  parent :: "addr option"

record ('k, 'v) BPlusTree =
  heap :: "('k, 'v) TreeNode list"
  root :: addr
  order :: int
  minKeys :: int
  minChildren :: int
  comparator :: "'k \<Rightarrow> 'k \<Rightarrow> int"
  count :: int

datatype error = InvalidArgument

subsection \<open>The store\<close>

definition node_at :: "('k, 'v) BPlusTree \<Rightarrow> addr \<Rightarrow> ('k, 'v) TreeNode option" where
  "node_at t a = (if a < length (heap t) then Some (heap t ! a) else None)"

definition set_node :: "('k, 'v) BPlusTree \<Rightarrow> addr \<Rightarrow> ('k, 'v) TreeNode \<Rightarrow> ('k, 'v) BPlusTree" where
  "set_node t a n = t\<lparr>heap := (heap t)[a := n]\<rparr>"

definition alloc :: "('k, 'v) BPlusTree \<Rightarrow> ('k, 'v) TreeNode \<Rightarrow> ('k, 'v) BPlusTree \<times> addr" where
  "alloc t n = (t\<lparr>heap := heap t @ [n]\<rparr>, length (heap t))"

text \<open>A field assignment \<^verbatim>\<open>x.f = e\<close> reads the object \<open>x\<close> points to and writes it back
  with the field changed; a dangling \<open>x\<close> panics.\<close>

definition update_node ::
  "('k, 'v) BPlusTree \<Rightarrow> addr \<Rightarrow> (('k, 'v) TreeNode \<Rightarrow> ('k, 'v) TreeNode) \<Rightarrow> ('k, 'v) BPlusTree option" where
  "update_node t a f = do { n \<leftarrow> node_at t a; Some (set_node t a (f n)) }"

definition set_parent :: "('k, 'v) BPlusTree \<Rightarrow> addr \<Rightarrow> addr option \<Rightarrow> ('k, 'v) BPlusTree option" where
  "set_parent t a p = update_node t a (\<lambda>n. n\<lparr>parent := p\<rparr>)"

text \<open>\<^verbatim>\<open>for _, child := range cs { child.parent = p }\<close>\<close>

fun set_parents :: "('k, 'v) BPlusTree \<Rightarrow> addr list \<Rightarrow> addr option \<Rightarrow> ('k, 'v) BPlusTree option" where
  "set_parents t [] p = Some t"
| "set_parents t (c # cs) p = do { t' \<leftarrow> set_parent t c p; set_parents t' cs p }"

subsection \<open>Slice idioms\<close>

text \<open>\<^verbatim>\<open>s = append(s, zero); copy(s[i+1:], s[i:]); s[i] = x\<close>: insertion at index \<open>i\<close>,
  which panics unless \<open>i \<le> len(s)\<close> before the append.\<close>

definition insert_at :: "nat \<Rightarrow> 'a \<Rightarrow> 'a list \<Rightarrow> 'a list option" where
  "insert_at i x xs = (if i \<le> length xs then Some (take i xs @ x # drop i xs) else None)"

text \<open>\<^verbatim>\<open>s = append(s[:i], s[i+1:]...)\<close>: removal of index \<open>i\<close>, which panics unless
  \<open>i < len(s)\<close>.\<close>

definition remove_at :: "nat \<Rightarrow> 'a list \<Rightarrow> 'a list option" where
  "remove_at i xs = (if i < length xs then Some (take i xs @ drop (Suc i) xs) else None)"

text \<open>\<^verbatim>\<open>s[i]\<close>, which panics out of range.\<close>

definition at :: "'a list \<Rightarrow> nat \<Rightarrow> 'a option" where
  "at xs i = (if i < length xs then Some (xs ! i) else None)"

text \<open>\<^verbatim>\<open>s[i:]\<close> and \<^verbatim>\<open>s[:i]\<close>, which panic unless \<open>i \<le> len(s)\<close>.\<close>

definition slice_from :: "nat \<Rightarrow> 'a list \<Rightarrow> 'a list option" where
  "slice_from i xs = (if i \<le> length xs then Some (drop i xs) else None)"

definition slice_to :: "nat \<Rightarrow> 'a list \<Rightarrow> 'a list option" where
  "slice_to i xs = (if i \<le> length xs then Some (take i xs) else None)"

text \<open>\<^verbatim>\<open>s[i] = x\<close>, which panics out of range.\<close>

definition set_at :: "'a list \<Rightarrow> nat \<Rightarrow> 'a \<Rightarrow> 'a list option" where
  "set_at xs i x = (if i < length xs then Some (xs[i := x]) else None)"

text \<open>\<^verbatim>\<open>s[len(s)-1]\<close> and \<^verbatim>\<open>s[:len(s)-1]\<close>, which panic on an empty slice.\<close>

definition last_elem :: "'a list \<Rightarrow> 'a option" where
  "last_elem xs = (if xs = [] then None else Some (xs ! (length xs - 1)))"

definition drop_last :: "'a list \<Rightarrow> 'a list option" where
  "drop_last xs = (if xs = [] then None else Some (take (length xs - 1) xs))"

text \<open>\<^verbatim>\<open>for i := 0; i < len(cs); i++ { if cs[i] == x { pos = i; break } }\<close> with \<open>pos = -1\<close>
  (here \<open>None\<close>) when the loop finds nothing.\<close>

fun index_of :: "'a \<Rightarrow> 'a list \<Rightarrow> nat option" where
  "index_of x [] = None"
| "index_of x (c # cs) = (if c = x then Some 0 else map_option Suc (index_of x cs))"

text \<open>\<^verbatim>\<open>pos := 0; for pos < len(cs) && cs[pos] != x { pos++ }\<close>: the position of the first
  occurrence, or \<open>len(cs)\<close>.\<close>

fun pos_of :: "'a \<Rightarrow> 'a list \<Rightarrow> nat" where
  "pos_of x [] = 0"
| "pos_of x (c # cs) = (if c \<noteq> x then Suc (pos_of x cs) else 0)"

text \<open>\<^verbatim>\<open>for i, k := range ks { if comparator(k, key) == 0 { ... i ... } }\<close>: the first index
  whose key compares equal.\<close>

fun find_key :: "('k \<Rightarrow> 'k \<Rightarrow> int) \<Rightarrow> 'k \<Rightarrow> 'k list \<Rightarrow> nat option" where
  "find_key cmp key [] = None"
| "find_key cmp key (k # ks) = (if cmp k key = 0 then Some 0 else map_option Suc (find_key cmp key ks))"

text \<open>\<^verbatim>\<open>idx := 0; for idx < len(ks) && comparator(key, ks[idx]) >= 0 { idx++ }\<close>\<close>

fun child_index :: "('k \<Rightarrow> 'k \<Rightarrow> int) \<Rightarrow> 'k \<Rightarrow> 'k list \<Rightarrow> nat" where
  "child_index cmp key [] = 0"
| "child_index cmp key (k # ks) = (if cmp key k \<ge> 0 then Suc (child_index cmp key ks) else 0)"

text \<open>\<^verbatim>\<open>p := 0; for p < len(ks) && comparator(ks[p], key) < 0 { p++ }\<close>\<close>

fun insert_pos :: "('k \<Rightarrow> 'k \<Rightarrow> int) \<Rightarrow> 'k \<Rightarrow> 'k list \<Rightarrow> nat" where
  "insert_pos cmp key [] = 0"
| "insert_pos cmp key (k # ks) = (if cmp k key < 0 then Suc (insert_pos cmp key ks) else 0)"

subsection \<open>Construction\<close>

definition NewBPlusTree :: "int \<Rightarrow> ('k \<Rightarrow> 'k \<Rightarrow> int) option \<Rightarrow> ('k, 'v) BPlusTree option" where
  "NewBPlusTree ord cmp =
     (if ord < 3 then None
      else case cmp of
        None \<Rightarrow> None
      | Some c \<Rightarrow> Some \<lparr>heap = [\<lparr>keys = [], values = [], children = [], isLeaf = True,
                                next = None, parent = None\<rparr>],
                        root = 0, order = ord, minKeys = ord div 2 - 1,
                        minChildren = ord div 2, comparator = c, count = 0\<rparr>)"

subsection \<open>Descent\<close>

partial_function (option) findLeafNode_from ::
  "('k, 'v) BPlusTree \<Rightarrow> 'k \<Rightarrow> addr \<Rightarrow> addr option" where
  "findLeafNode_from t key node =
     do { n \<leftarrow> node_at t node;
          if isLeaf n then Some node
          else let idx = child_index (comparator t) key (keys n);
                   idx' = (if idx \<ge> length (children n) then length (children n) - 1 else idx)
               in if children n = [] then None
                  else findLeafNode_from t key (children n ! idx') }"

declare findLeafNode_from.simps [code]

definition findLeafNode :: "('k, 'v) BPlusTree \<Rightarrow> 'k \<Rightarrow> addr option" where
  "findLeafNode t key = findLeafNode_from t key (root t)"


subsection \<open>Insert and split\<close>

text \<open>\<^verbatim>\<open>splitInternalNode\<close> calls itself on the parent; the recursion climbs the parent
  pointers, which nothing in the code bounds, so it is a partial function.\<close>

partial_function (option) splitInternalNode ::
  "('k, 'v) BPlusTree \<Rightarrow> addr \<Rightarrow> ('k, 'v) BPlusTree option" where
  "splitInternalNode t node =
     do { n \<leftarrow> node_at t node;
          let splitPos = length (keys n) div 2;
          newKeys \<leftarrow> slice_from (splitPos + 1) (keys n);
          midKey \<leftarrow> at (keys n) splitPos;
          newChildren \<leftarrow> slice_from (splitPos + 1) (children n);
          let (t1, newNode) = alloc t \<lparr>keys = newKeys, values = [], children = newChildren,
                                       isLeaf = False, next = None, parent = parent n\<rparr>;
          t2 \<leftarrow> set_parents t1 newChildren (Some newNode);
          n2 \<leftarrow> node_at t2 node;
          oldKeys \<leftarrow> slice_to splitPos (keys n2);
          oldChildren \<leftarrow> slice_to (splitPos + 1) (children n2);
          t3 \<leftarrow> update_node t2 node (\<lambda>n. n\<lparr>keys := oldKeys, children := oldChildren\<rparr>);
          n3 \<leftarrow> node_at t3 node;
          case parent n3 of
            None \<Rightarrow>
              do { let (t4, newRoot) = alloc t3 \<lparr>keys = [midKey], values = [],
                                                 children = [node, newNode], isLeaf = False,
                                                 next = None, parent = None\<rparr>;
                   t5 \<leftarrow> set_parent t4 node (Some newRoot);
                   t6 \<leftarrow> set_parent t5 newNode (Some newRoot);
                   Some (t6\<lparr>root := newRoot\<rparr>) }
          | Some p \<Rightarrow>
              do { pn \<leftarrow> node_at t3 p;
                   nodePos \<leftarrow> index_of node (children pn);
                   pkeys \<leftarrow> insert_at nodePos midKey (keys pn);
                   t4 \<leftarrow> update_node t3 p (\<lambda>n. n\<lparr>keys := pkeys\<rparr>);
                   pn4 \<leftarrow> node_at t4 p;
                   pchildren \<leftarrow> insert_at (nodePos + 1) newNode (children pn4);
                   t5 \<leftarrow> update_node t4 p (\<lambda>n. n\<lparr>children := pchildren\<rparr>);
                   t6 \<leftarrow> set_parent t5 newNode (Some p);
                   pn6 \<leftarrow> node_at t6 p;
                   if int (length (keys pn6)) > order t6 - 1 then splitInternalNode t6 p
                   else Some t6 } }"

declare splitInternalNode.simps [code]

definition splitLeafNode :: "('k, 'v) BPlusTree \<Rightarrow> addr \<Rightarrow> ('k, 'v) BPlusTree option" where
  "splitLeafNode t leaf =
     do { n \<leftarrow> node_at t leaf;
          let splitPos = length (keys n) div 2;
          newKeys \<leftarrow> slice_from splitPos (keys n);
          newValues \<leftarrow> slice_from splitPos (values n);
          let (t1, newLeaf) = alloc t \<lparr>keys = newKeys, values = newValues, children = [],
                                       isLeaf = True, next = next n, parent = parent n\<rparr>;
          oldKeys \<leftarrow> slice_to splitPos (keys n);
          oldValues \<leftarrow> slice_to splitPos (values n);
          t2 \<leftarrow> update_node t1 leaf
                  (\<lambda>n. n\<lparr>keys := oldKeys, values := oldValues, next := Some newLeaf\<rparr>);
          n2 \<leftarrow> node_at t2 leaf;
          case parent n2 of
            None \<Rightarrow>
              do { k0 \<leftarrow> at newKeys 0;
                   let (t3, newRoot) = alloc t2 \<lparr>keys = [k0], values = [],
                                                 children = [leaf, newLeaf], isLeaf = False,
                                                 next = None, parent = None\<rparr>;
                   t4 \<leftarrow> set_parent t3 leaf (Some newRoot);
                   t5 \<leftarrow> set_parent t4 newLeaf (Some newRoot);
                   Some (t5\<lparr>root := newRoot\<rparr>) }
          | Some p \<Rightarrow>
              do { pn \<leftarrow> node_at t2 p;
                   leafPos \<leftarrow> index_of leaf (children pn);
                   k0 \<leftarrow> at newKeys 0;
                   pkeys \<leftarrow> insert_at leafPos k0 (keys pn);
                   t3 \<leftarrow> update_node t2 p (\<lambda>n. n\<lparr>keys := pkeys\<rparr>);
                   pn3 \<leftarrow> node_at t3 p;
                   pchildren \<leftarrow> insert_at (leafPos + 1) newLeaf (children pn3);
                   t4 \<leftarrow> update_node t3 p (\<lambda>n. n\<lparr>children := pchildren\<rparr>);
                   t5 \<leftarrow> set_parent t4 newLeaf (Some p);
                   pn5 \<leftarrow> node_at t5 p;
                   if int (length (keys pn5)) > order t5 - 1 then splitInternalNode t5 p
                   else Some t5 } }"

definition insertIntoLeaf ::
  "('k, 'v) BPlusTree \<Rightarrow> addr \<Rightarrow> 'k \<Rightarrow> 'v \<Rightarrow> ('k, 'v) BPlusTree option" where
  "insertIntoLeaf t leaf key val =
     do { n \<leftarrow> node_at t leaf;
          let insertPos = insert_pos (comparator t) key (keys n);
          ks \<leftarrow> insert_at insertPos key (keys n);
          vs \<leftarrow> insert_at insertPos \<lparr>Key = key, Value = val\<rparr> (values n);
          t1 \<leftarrow> update_node t leaf (\<lambda>n. n\<lparr>keys := ks, values := vs\<rparr>);
          n1 \<leftarrow> node_at t1 leaf;
          if int (length (keys n1)) > order t1 - 1 then splitLeafNode t1 leaf else Some t1 }"

text \<open>\<^verbatim>\<open>Insert\<close> returns an error value; \<open>Inl\<close> is a returned error (the tree is then
  untouched), \<open>Inr\<close> the tree after a call that returned \<^verbatim>\<open>nil\<close>.\<close>

definition Insert ::
  "('k, 'v) BPlusTree \<Rightarrow> 'k option \<Rightarrow> 'v \<Rightarrow> (error + ('k, 'v) BPlusTree) option" where
  "Insert t key val =
     (case key of
        None \<Rightarrow> Some (Inl InvalidArgument)
      | Some k \<Rightarrow>
          do { leaf \<leftarrow> findLeafNode t k;
               n \<leftarrow> node_at t leaf;
               case find_key (comparator t) k (keys n) of
                 Some i \<Rightarrow>
                   do { kv \<leftarrow> at (values n) i;
                        t1 \<leftarrow> update_node t leaf
                                (\<lambda>n. n\<lparr>values := (values n)[i := kv\<lparr>Value := val\<rparr>]\<rparr>);
                        Some (Inr t1) }
               | None \<Rightarrow>
                   do { t1 \<leftarrow> insertIntoLeaf t leaf k val;
                        Some (Inr (t1\<lparr>count := count t1 + 1\<rparr>)) } })"

subsection \<open>Search\<close>

text \<open>The result pair \<^verbatim>\<open>(any, bool)\<close>: \<open>(Some v, True)\<close> for a stored value \<open>v\<close>,
  \<open>(None, False)\<close> for \<^verbatim>\<open>(nil, false)\<close>.\<close>

definition Search :: "('k, 'v) BPlusTree \<Rightarrow> 'k option \<Rightarrow> ('v option \<times> bool) option" where
  "Search t key =
     (case key of
        None \<Rightarrow> Some (None, False)
      | Some k \<Rightarrow>
          do { leaf \<leftarrow> findLeafNode t k;
               n \<leftarrow> node_at t leaf;
               case find_key (comparator t) k (keys n) of
                 Some i \<Rightarrow> do { kv \<leftarrow> at (values n) i; Some (Some (Value kv), True) }
               | None \<Rightarrow> Some (None, False) })"


subsection \<open>Delete and rebalance\<close>

text \<open>\<^verbatim>\<open>deleteFromInternalNode\<close> and \<^verbatim>\<open>rebalanceInternalNode\<close> call each other while they
  climb the parent pointers.  They are one partial function over the call that is made;
  the two source functions are its two cases.  The third parameter of
  \<^verbatim>\<open>deleteFromInternalNode\<close> is never read by the source.\<close>

datatype internal_call =
    DeleteFromInternalNode addr nat addr
  | RebalanceInternalNode addr

partial_function (option) internal_delete ::
  "('k, 'v) BPlusTree \<Rightarrow> internal_call \<Rightarrow> ('k, 'v) BPlusTree option" where
  "internal_delete t c =
     (case c of
        DeleteFromInternalNode par pos child \<Rightarrow>
          do { pn \<leftarrow> node_at t par;
               ks \<leftarrow> remove_at pos (keys pn);
               t1 \<leftarrow> update_node t par (\<lambda>n. n\<lparr>keys := ks\<rparr>);
               pn1 \<leftarrow> node_at t1 par;
               cs \<leftarrow> remove_at (pos + 1) (children pn1);
               t2 \<leftarrow> update_node t1 par (\<lambda>n. n\<lparr>children := cs\<rparr>);
               pn2 \<leftarrow> node_at t2 par;
               t3 \<leftarrow> (if int (length (keys pn2)) < minKeys t2 \<and> parent pn2 \<noteq> None
                       then internal_delete t2 (RebalanceInternalNode par)
                       else Some t2);
               pn3 \<leftarrow> node_at t3 par;
               if length (keys pn3) = 0 \<and> parent pn3 = None
               then do { c0 \<leftarrow> at (children pn3) 0;
                         set_parent (t3\<lparr>root := c0\<rparr>) c0 None }
               else Some t3 }
      | RebalanceInternalNode node \<Rightarrow>
          do { n \<leftarrow> node_at t node;
               par \<leftarrow> parent n;
               pn \<leftarrow> node_at t par;
               let pos = pos_of node (children pn);
               borrowLeft \<leftarrow>
                 (if pos > 0
                  then do { l \<leftarrow> at (children pn) (pos - 1);
                            ln \<leftarrow> node_at t l;
                            Some (int (length (keys ln)) > minKeys t) }
                  else Some False);
               if borrowLeft
               then
                 do { leftSibling \<leftarrow> at (children pn) (pos - 1);
                      borrowedKey \<leftarrow> at (keys pn) (pos - 1);
                      t1 \<leftarrow> update_node t node (\<lambda>n. n\<lparr>keys := borrowedKey # keys n\<rparr>);
                      ln \<leftarrow> node_at t1 leftSibling;
                      lastChild \<leftarrow> last_elem (children ln);
                      t2 \<leftarrow> set_parent t1 lastChild (Some node);
                      t3 \<leftarrow> update_node t2 node (\<lambda>n. n\<lparr>children := lastChild # children n\<rparr>);
                      ln3 \<leftarrow> node_at t3 leftSibling;
                      lkeys \<leftarrow> drop_last (keys ln3);
                      lchildren \<leftarrow> drop_last (children ln3);
                      t4 \<leftarrow> update_node t3 leftSibling
                              (\<lambda>n. n\<lparr>keys := lkeys, children := lchildren\<rparr>);
                      ln4 \<leftarrow> node_at t4 leftSibling;
                      sep \<leftarrow> last_elem (keys ln4);
                      pn4 \<leftarrow> node_at t4 par;
                      pkeys \<leftarrow> set_at (keys pn4) (pos - 1) sep;
                      update_node t4 par (\<lambda>n. n\<lparr>keys := pkeys\<rparr>) }
               else
                 do { borrowRight \<leftarrow>
                        (if int pos < int (length (children pn)) - 1
                         then do { r \<leftarrow> at (children pn) (pos + 1);
                                   rn \<leftarrow> node_at t r;
                                   Some (int (length (keys rn)) > minKeys t) }
                         else Some False);
                      if borrowRight
                      then
                        do { rightSibling \<leftarrow> at (children pn) (pos + 1);
                             borrowedKey \<leftarrow> at (keys pn) pos;
                             t1 \<leftarrow> update_node t node (\<lambda>n. n\<lparr>keys := keys n @ [borrowedKey]\<rparr>);
                             rn \<leftarrow> node_at t1 rightSibling;
                             firstChild \<leftarrow> at (children rn) 0;
                             t2 \<leftarrow> set_parent t1 firstChild (Some node);
                             t3 \<leftarrow> update_node t2 node
                                     (\<lambda>n. n\<lparr>children := children n @ [firstChild]\<rparr>);
                             rn3 \<leftarrow> node_at t3 rightSibling;
                             rkeys \<leftarrow> slice_from 1 (keys rn3);
                             rchildren \<leftarrow> slice_from 1 (children rn3);
                             t4 \<leftarrow> update_node t3 rightSibling
                                     (\<lambda>n. n\<lparr>keys := rkeys, children := rchildren\<rparr>);
                             rn4 \<leftarrow> node_at t4 rightSibling;
                             sep \<leftarrow> at (keys rn4) 0;
                             pn4 \<leftarrow> node_at t4 par;
                             pkeys \<leftarrow> set_at (keys pn4) pos sep;
                             update_node t4 par (\<lambda>n. n\<lparr>keys := pkeys\<rparr>) }
                      else if pos > 0
                      then
                        do { leftSibling \<leftarrow> at (children pn) (pos - 1);
                             parentKey \<leftarrow> at (keys pn) (pos - 1);
                             t1 \<leftarrow> update_node t leftSibling
                                     (\<lambda>n. n\<lparr>keys := keys n @ [parentKey]\<rparr>);
                             n1 \<leftarrow> node_at t1 node;
                             t2 \<leftarrow> update_node t1 leftSibling
                                     (\<lambda>n. n\<lparr>keys := keys n @ keys n1\<rparr>);
                             n2 \<leftarrow> node_at t2 node;
                             t3 \<leftarrow> update_node t2 leftSibling
                                     (\<lambda>n. n\<lparr>children := children n @ children n2\<rparr>);
                             n3 \<leftarrow> node_at t3 node;
                             t4 \<leftarrow> set_parents t3 (children n3) (Some leftSibling);
                             internal_delete t4 (DeleteFromInternalNode par (pos - 1) node) }
                      else
                        do { rightSibling \<leftarrow> at (children pn) (pos + 1);
                             parentKey \<leftarrow> at (keys pn) pos;
                             t1 \<leftarrow> update_node t node (\<lambda>n. n\<lparr>keys := keys n @ [parentKey]\<rparr>);
                             rn1 \<leftarrow> node_at t1 rightSibling;
                             t2 \<leftarrow> update_node t1 node (\<lambda>n. n\<lparr>keys := keys n @ keys rn1\<rparr>);
                             rn2 \<leftarrow> node_at t2 rightSibling;
                             t3 \<leftarrow> update_node t2 node
                                     (\<lambda>n. n\<lparr>children := children n @ children rn2\<rparr>);
                             rn3 \<leftarrow> node_at t3 rightSibling;
                             t4 \<leftarrow> set_parents t3 (children rn3) (Some node);
                             internal_delete t4 (DeleteFromInternalNode par pos rightSibling) } } })"

declare internal_delete.simps [code]

definition deleteFromInternalNode ::
  "('k, 'v) BPlusTree \<Rightarrow> addr \<Rightarrow> nat \<Rightarrow> addr \<Rightarrow> ('k, 'v) BPlusTree option" where
  "deleteFromInternalNode t par pos child = internal_delete t (DeleteFromInternalNode par pos child)"

definition rebalanceInternalNode :: "('k, 'v) BPlusTree \<Rightarrow> addr \<Rightarrow> ('k, 'v) BPlusTree option" where
  "rebalanceInternalNode t node = internal_delete t (RebalanceInternalNode node)"

definition rebalanceLeafNode :: "('k, 'v) BPlusTree \<Rightarrow> addr \<Rightarrow> ('k, 'v) BPlusTree option" where
  "rebalanceLeafNode t leaf =
     do { n \<leftarrow> node_at t leaf;
          par \<leftarrow> parent n;
          pn \<leftarrow> node_at t par;
          let pos = pos_of leaf (children pn);
          borrowLeft \<leftarrow>
            (if pos > 0
             then do { l \<leftarrow> at (children pn) (pos - 1);
                       ln \<leftarrow> node_at t l;
                       Some (int (length (keys ln)) > minKeys t) }
             else Some False);
          if borrowLeft
          then
            do { leftSibling \<leftarrow> at (children pn) (pos - 1);
                 ln \<leftarrow> node_at t leftSibling;
                 borrowedKey \<leftarrow> last_elem (keys ln);
                 borrowedValue \<leftarrow> last_elem (values ln);
                 t1 \<leftarrow> update_node t leaf
                         (\<lambda>n. n\<lparr>keys := borrowedKey # keys n, values := borrowedValue # values n\<rparr>);
                 ln1 \<leftarrow> node_at t1 leftSibling;
                 lkeys \<leftarrow> drop_last (keys ln1);
                 lvalues \<leftarrow> drop_last (values ln1);
                 t2 \<leftarrow> update_node t1 leftSibling (\<lambda>n. n\<lparr>keys := lkeys, values := lvalues\<rparr>);
                 n2 \<leftarrow> node_at t2 leaf;
                 sep \<leftarrow> at (keys n2) 0;
                 pn2 \<leftarrow> node_at t2 par;
                 pkeys \<leftarrow> set_at (keys pn2) (pos - 1) sep;
                 update_node t2 par (\<lambda>n. n\<lparr>keys := pkeys\<rparr>) }
          else
            do { borrowRight \<leftarrow>
                   (if int pos < int (length (children pn)) - 1
                    then do { r \<leftarrow> at (children pn) (pos + 1);
                              rn \<leftarrow> node_at t r;
                              Some (int (length (keys rn)) > minKeys t) }
                    else Some False);
                 if borrowRight
                 then
                   do { rightSibling \<leftarrow> at (children pn) (pos + 1);
                        rn \<leftarrow> node_at t rightSibling;
                        borrowedKey \<leftarrow> at (keys rn) 0;
                        borrowedValue \<leftarrow> at (values rn) 0;
                        t1 \<leftarrow> update_node t leaf
                                (\<lambda>n. n\<lparr>keys := keys n @ [borrowedKey],
                                         values := values n @ [borrowedValue]\<rparr>);
                        rn1 \<leftarrow> node_at t1 rightSibling;
                        rkeys \<leftarrow> slice_from 1 (keys rn1);
                        rvalues \<leftarrow> slice_from 1 (values rn1);
                        t2 \<leftarrow> update_node t1 rightSibling
                                (\<lambda>n. n\<lparr>keys := rkeys, values := rvalues\<rparr>);
                        rn2 \<leftarrow> node_at t2 rightSibling;
                        sep \<leftarrow> at (keys rn2) 0;
                        pn2 \<leftarrow> node_at t2 par;
                        pkeys \<leftarrow> set_at (keys pn2) pos sep;
                        update_node t2 par (\<lambda>n. n\<lparr>keys := pkeys\<rparr>) }
                 else if pos > 0
                 then
                   do { leftSibling \<leftarrow> at (children pn) (pos - 1);
                        n0 \<leftarrow> node_at t leaf;
                        t1 \<leftarrow> update_node t leftSibling (\<lambda>n. n\<lparr>keys := keys n @ keys n0\<rparr>);
                        n1 \<leftarrow> node_at t1 leaf;
                        t2 \<leftarrow> update_node t1 leftSibling
                                (\<lambda>n. n\<lparr>values := values n @ values n1\<rparr>);
                        n2 \<leftarrow> node_at t2 leaf;
                        t3 \<leftarrow> update_node t2 leftSibling (\<lambda>n. n\<lparr>next := next n2\<rparr>);
                        deleteFromInternalNode t3 par (pos - 1) leaf }
                 else
                   do { rightSibling \<leftarrow> at (children pn) (pos + 1);
                        rn0 \<leftarrow> node_at t rightSibling;
                        t1 \<leftarrow> update_node t leaf (\<lambda>n. n\<lparr>keys := keys n @ keys rn0\<rparr>);
                        rn1 \<leftarrow> node_at t1 rightSibling;
                        t2 \<leftarrow> update_node t1 leaf (\<lambda>n. n\<lparr>values := values n @ values rn1\<rparr>);
                        rn2 \<leftarrow> node_at t2 rightSibling;
                        t3 \<leftarrow> update_node t2 leaf (\<lambda>n. n\<lparr>next := next rn2\<rparr>);
                        deleteFromInternalNode t3 par pos rightSibling } } }"

definition deleteFromLeaf :: "('k, 'v) BPlusTree \<Rightarrow> addr \<Rightarrow> nat \<Rightarrow> ('k, 'v) BPlusTree option" where
  "deleteFromLeaf t leaf idx =
     do { n \<leftarrow> node_at t leaf;
          ks \<leftarrow> remove_at idx (keys n);
          vs \<leftarrow> remove_at idx (values n);
          t1 \<leftarrow> update_node t leaf (\<lambda>n. n\<lparr>keys := ks, values := vs\<rparr>);
          n1 \<leftarrow> node_at t1 leaf;
          if int (length (keys n1)) < minKeys t1 \<and> parent n1 \<noteq> None
          then rebalanceLeafNode t1 leaf
          else Some t1 }"

text \<open>\<^verbatim>\<open>Delete\<close> returns its boolean together with the tree it leaves behind.\<close>

definition Delete :: "('k, 'v) BPlusTree \<Rightarrow> 'k option \<Rightarrow> (bool \<times> ('k, 'v) BPlusTree) option" where
  "Delete t key =
     (case key of
        None \<Rightarrow> Some (False, t)
      | Some k \<Rightarrow>
          do { leaf \<leftarrow> findLeafNode t k;
               n \<leftarrow> node_at t leaf;
               case find_key (comparator t) k (keys n) of
                 None \<Rightarrow> Some (False, t)
               | Some idx \<Rightarrow>
                   do { t1 \<leftarrow> deleteFromLeaf t leaf idx;
                        Some (True, t1\<lparr>count := count t1 - 1\<rparr>) } })"

subsection \<open>Scans and diagnostics\<close>

text \<open>The walk along the leaf chain, \<^verbatim>\<open>for leaf != nil { ...; leaf = leaf.next }\<close>, ends
  only if the chain does.\<close>

partial_function (option) scan_chain ::
  "('k, 'v) BPlusTree \<Rightarrow> addr option \<Rightarrow> ('k, 'v) KeyValue list \<Rightarrow> ('k, 'v) KeyValue list option" where
  "scan_chain t leaf result =
     (case leaf of
        None \<Rightarrow> Some result
      | Some a \<Rightarrow> do { n \<leftarrow> node_at t a; scan_chain t (next n) (result @ values n) })"

declare scan_chain.simps [code]

text \<open>\<^verbatim>\<open>for !leaf.isLeaf { leaf = leaf.children[0] }\<close>\<close>

partial_function (option) leftmost_leaf :: "('k, 'v) BPlusTree \<Rightarrow> addr \<Rightarrow> addr option" where
  "leftmost_leaf t a =
     do { n \<leftarrow> node_at t a;
          if isLeaf n then Some a
          else do { c \<leftarrow> at (children n) 0; leftmost_leaf t c } }"

declare leftmost_leaf.simps [code]

definition ScanAll :: "('k, 'v) BPlusTree \<Rightarrow> ('k, 'v) KeyValue list option" where
  "ScanAll t = do { leaf \<leftarrow> leftmost_leaf t (root t); scan_chain t (Some leaf) [] }"

text \<open>The inner loop of \<^verbatim>\<open>RangeQuery\<close> over one leaf:
  \<^verbatim>\<open>for i, key := range leaf.keys { if cmp(key, start) >= 0 && cmp(key, end) < 0
  { result = append(result, leaf.values[i]) } }\<close>.  The index runs over \<^verbatim>\<open>keys\<close>; a
  shorter \<^verbatim>\<open>values\<close> panics at the first selected index beyond it.\<close>

fun range_leaf ::
  "('k \<Rightarrow> 'k \<Rightarrow> int) \<Rightarrow> 'k \<Rightarrow> 'k \<Rightarrow> 'k list \<Rightarrow> ('k, 'v) KeyValue list \<Rightarrow> nat \<Rightarrow>
   ('k, 'v) KeyValue list \<Rightarrow> ('k, 'v) KeyValue list option" where
  "range_leaf cmp start end [] vs i result = Some result"
| "range_leaf cmp start end (key # ks) vs i result =
     (if cmp key start \<ge> 0 \<and> cmp key end < 0
      then do { kv \<leftarrow> at vs i; range_leaf cmp start end ks vs (Suc i) (result @ [kv]) }
      else range_leaf cmp start end ks vs (Suc i) result)"

partial_function (option) range_chain ::
  "('k, 'v) BPlusTree \<Rightarrow> 'k \<Rightarrow> 'k \<Rightarrow> addr option \<Rightarrow> ('k, 'v) KeyValue list \<Rightarrow>
   ('k, 'v) KeyValue list option" where
  "range_chain t start end leaf result =
     (case leaf of
        None \<Rightarrow> Some result
      | Some a \<Rightarrow>
          do { n \<leftarrow> node_at t a;
               result' \<leftarrow> range_leaf (comparator t) start end (keys n) (values n) 0 result;
               range_chain t start end (next n) result' })"

declare range_chain.simps [code]

definition RangeQuery ::
  "('k, 'v) BPlusTree \<Rightarrow> 'k option \<Rightarrow> 'k option \<Rightarrow> (error + ('k, 'v) KeyValue list) option" where
  "RangeQuery t start end =
     (case (start, end) of
        (Some s, Some e) \<Rightarrow>
          if comparator t s e \<ge> 0 then Some (Inl InvalidArgument)
          else do { leaf \<leftarrow> findLeafNode t s;
                    result \<leftarrow> range_chain t s e (Some leaf) [];
                    Some (Inr result) }
      | _ \<Rightarrow> Some (Inl InvalidArgument))"


text \<open>\<^verbatim>\<open>for !node.isLeaf { height++; node = node.children[0] }\<close>\<close>

partial_function (option) height_from :: "('k, 'v) BPlusTree \<Rightarrow> addr \<Rightarrow> int \<Rightarrow> int option" where
  "height_from t node height =
     do { n \<leftarrow> node_at t node;
          if isLeaf n then Some height
          else do { c \<leftarrow> at (children n) 0; height_from t c (height + 1) } }"

declare height_from.simps [code]

definition Height :: "('k, 'v) BPlusTree \<Rightarrow> int option" where
  "Height t = height_from t (root t) 1"


subsection \<open>Sequences of calls\<close>

text \<open>A client that calls \<^verbatim>\<open>Insert\<close> and \<^verbatim>\<open>Delete\<close> one after the other.  A call that
  returns an error or \<^verbatim>\<open>false\<close> leaves the client with the tree the call left behind.\<close>

datatype ('k, 'v) call = CallInsert "'k option" 'v | CallDelete "'k option"

definition call_step :: "('k, 'v) BPlusTree \<Rightarrow> ('k, 'v) call \<Rightarrow> ('k, 'v) BPlusTree option" where
  "call_step t c =
     (case c of
        CallInsert k v \<Rightarrow>
          (case Insert t k v of
             None \<Rightarrow> None
           | Some (Inl e) \<Rightarrow> Some t
           | Some (Inr t') \<Rightarrow> Some t')
      | CallDelete k \<Rightarrow> map_option snd (Delete t k))"

fun run_calls :: "('k, 'v) BPlusTree \<Rightarrow> ('k, 'v) call list \<Rightarrow> ('k, 'v) BPlusTree option" where
  "run_calls t [] = Some t"
| "run_calls t (c # cs) = do { t' \<leftarrow> call_step t c; run_calls t' cs }"

text \<open>The comparator of the tests and examples, on Go \<^verbatim>\<open>int\<close> keys.\<close>

definition intComparator :: "int \<Rightarrow> int \<Rightarrow> int" where
  "intComparator a b = (if a < b then - 1 else if a > b then 1 else 0)"


text \<open>The client of the tests: insert the keys in the given order, each with ten times
  the key as its value, then delete keys in the given order.\<close>

definition inserts :: "int list \<Rightarrow> (int, int) call list" where
  "inserts ks = map (\<lambda>k. CallInsert (Some k) (10 * k)) ks"

definition deletes :: "int list \<Rightarrow> (int, int) call list" where
  "deletes ks = map (\<lambda>k. CallDelete (Some k)) ks"

definition run_from_new :: "int \<Rightarrow> (int, int) call list \<Rightarrow> (int, int) BPlusTree option" where
  "run_from_new ord cs = do { t \<leftarrow> NewBPlusTree ord (Some intComparator); run_calls t cs }"


subsection \<open>Specification-level notions\<close>

text \<open>The notions below are not functions of the program; they state what the
  specification says about a tree, so that it can be checked on a state.\<close>

text \<open>The keys stored in the leaves below a node, \<open>d\<close> levels down at most.\<close>

fun subtree_keys :: "nat \<Rightarrow> ('k, 'v) BPlusTree \<Rightarrow> addr \<Rightarrow> 'k list" where
  "subtree_keys 0 t a = []"
| "subtree_keys (Suc d) t a =
     (case node_at t a of
        None \<Rightarrow> []
      | Some n \<Rightarrow> if isLeaf n then keys n else concat (map (subtree_keys d t) (children n)))"

text \<open>Key \<open>k\<close> may live below child \<open>i\<close> of a node with separators \<open>ks\<close>: it is at least
  the separator to the left of the child, if there is one, and less than the separator to
  its right, if there is one.\<close>

definition child_in_range :: "('k \<Rightarrow> 'k \<Rightarrow> int) \<Rightarrow> 'k list \<Rightarrow> nat \<Rightarrow> 'k \<Rightarrow> bool" where
  "child_in_range cmp ks i k =
     ((i = 0 \<or> cmp k (ks ! (i - 1)) \<ge> 0) \<and> (i \<ge> length ks \<or> cmp k (ks ! i) < 0))"

definition node_separators_ok :: "nat \<Rightarrow> ('k, 'v) BPlusTree \<Rightarrow> ('k, 'v) TreeNode \<Rightarrow> bool" where
  "node_separators_ok d t n =
     list_all (\<lambda>i. list_all (child_in_range (comparator t) (keys n) i)
                              (subtree_keys d t (children n ! i)))
              [0..<length (children n)]"

fun separators_ok :: "nat \<Rightarrow> ('k, 'v) BPlusTree \<Rightarrow> addr \<Rightarrow> bool" where
  "separators_ok 0 t a = True"
| "separators_ok (Suc d) t a =
     (case node_at t a of
        None \<Rightarrow> False
      | Some n \<Rightarrow> isLeaf n \<or> (node_separators_ok d t n \<and> list_all (separators_ok d t) (children n)))"

definition separator_invariant :: "('k, 'v) BPlusTree \<Rightarrow> bool" where
  "separator_invariant t =
     (case Height t of None \<Rightarrow> False | Some h \<Rightarrow> separators_ok (nat h) t (root t))"

fun strictly_increasing :: "('k \<Rightarrow> 'k \<Rightarrow> int) \<Rightarrow> 'k list \<Rightarrow> bool" where
  "strictly_increasing cmp [] = True"
| "strictly_increasing cmp [k] = True"
| "strictly_increasing cmp (a # b # ks) = (cmp a b < 0 \<and> strictly_increasing cmp (b # ks))"

text \<open>The entries of a scan with \<open>start \<le> key < end\<close>, in scan order.\<close>

definition range_of_scan ::
  "('k \<Rightarrow> 'k \<Rightarrow> int) \<Rightarrow> 'k \<Rightarrow> 'k \<Rightarrow> ('k, 'v) KeyValue list \<Rightarrow> ('k, 'v) KeyValue list" where
  "range_of_scan cmp start end xs =
     filter (\<lambda>kv. cmp (Key kv) start \<ge> 0 \<and> cmp (Key kv) end < 0) xs"

section \<open>Properties\<close>

subsection \<open>The error contract of RangeQuery\<close>

lemma bind_neq_Inl_aux:
  "(m \<bind> (\<lambda>x. f x \<bind> (\<lambda>r. Some (Inr r)))) \<noteq> Some (Inl e)"
  by (cases m) (auto split: bind_splits)

text \<open>
  Claim C6.  \<^verbatim>\<open>RangeQuery(start, end)\<close> returns the error exactly when \<open>start\<close> is nil,
  \<open>end\<close> is nil, or the comparator puts \<open>start\<close> at or after \<open>end\<close>; on a tree with the
  integer comparator \<^verbatim>\<open>RangeQuery(7, 3)\<close> returns the error.  \<^verbatim>\<open>RangeQuery\<close> only reads
  the tree (the model function returns no new tree), so a rejected call changes nothing.
\<close>

theorem RangeQuery_error_contract:
  "(RangeQuery t start end = Some (Inl InvalidArgument)
      \<longleftrightarrow> start = None \<or> end = None
          \<or> (\<exists>s e. start = Some s \<and> end = Some e \<and> comparator t s e \<ge> 0))
   \<and> RangeQuery (t\<lparr>comparator := intComparator\<rparr>) (Some 7) (Some 3) = Some (Inl InvalidArgument)"
proof
  show "RangeQuery t start end = Some (Inl InvalidArgument)
      \<longleftrightarrow> start = None \<or> end = None
          \<or> (\<exists>s e. start = Some s \<and> end = Some e \<and> comparator t s e \<ge> 0)"
  proof (cases start)
    case None
    then show ?thesis by (simp add: RangeQuery_def)
  next
    case (Some s)
    note s = this
    show ?thesis
    proof (cases "end")
      case None
      then show ?thesis using s by (simp add: RangeQuery_def)
    next
      case (Some e)
      then show ?thesis using s
        by (simp add: RangeQuery_def bind_neq_Inl_aux)
    qed
  qed
next
  show "RangeQuery (t\<lparr>comparator := intComparator\<rparr>) (Some 7) (Some 3) = Some (Inl InvalidArgument)"
    by (simp add: RangeQuery_def intComparator_def)
qed

subsection \<open>The defect in rebalanceInternalNode\<close>

text \<open>
  When \<^verbatim>\<open>rebalanceInternalNode\<close> borrows from a sibling it first truncates the sibling's key
  slice and only then reads the separator for the parent from it, so the parent receives the
  sibling's neighbouring key instead of the key that left the sibling.  The smallest run that
  shows it: order 4, insert 0..9 in ascending order, delete 6, 9, 8.
\<close>

text \<open>
  Claim C1 at that input.  Key 2 was inserted with value 20 and never deleted, yet
  \<^verbatim>\<open>Search(2)\<close> returns \<^verbatim>\<open>(nil, false)\<close>.
\<close>

theorem Search_loses_key_after_internal_borrow:
  "(do { t \<leftarrow> run_from_new 4 (inserts [0, 1, 2, 3, 4, 5, 6, 7, 8, 9] @ deletes [6, 9, 8]);
         Search t (Some 2) }) = Some (None, False)"
  by code_simp


text \<open>
  Claim C2 at that input.  After the ten inserts every internal node orders its subtrees
  by its separators; after the three deletes the root holds separator 2 while its first
  subtree still holds keys 2 and 3.
\<close>

theorem separator_invariant_broken_by_internal_borrow:
  "(do { t \<leftarrow> run_from_new 4 (inserts [0, 1, 2, 3, 4, 5, 6, 7, 8, 9]);
         t' \<leftarrow> run_calls t (deletes [6, 9, 8]);
         Some (separator_invariant t, separator_invariant t',
               map keys (heap t'), root t') })
   = Some (True, False,
           [[0, 1], [2, 3], [2], [4, 5], [7], [], [6], [2]], 7)"
  by code_simp

text \<open>
  Claim C4, one call later.  \<^verbatim>\<open>Insert(2, 99)\<close> does not find the stored key 2 either,
  adds a second entry for it to another leaf, and \<^verbatim>\<open>ScanAll\<close> is no longer strictly
  increasing: the chain holds key 2 twice, the second time after key 3.
\<close>

theorem ScanAll_not_increasing_after_internal_borrow:
  "(do { t \<leftarrow> run_from_new 4 (inserts [0, 1, 2, 3, 4, 5, 6, 7, 8, 9] @ deletes [6, 9, 8]
                                @ [CallInsert (Some 2) 99]);
         xs \<leftarrow> ScanAll t;
         Some (map Key xs, strictly_increasing (comparator t) (map Key xs)) })
   = Some ([0, 1, 2, 3, 2, 4, 5, 7], False)"
  by code_simp

text \<open>
  Claim C5 at the input of C1.  \<^verbatim>\<open>RangeQuery(2, 3)\<close> starts its walk at the leaf that
  \<^verbatim>\<open>findLeafNode\<close> reaches for key 2, which lies behind the leaf that stores key 2, and
  returns an empty list, while the scan holds the entry of key 2.
\<close>

theorem RangeQuery_misses_entry_after_internal_borrow:
  "(do { t \<leftarrow> run_from_new 4 (inserts [0, 1, 2, 3, 4, 5, 6, 7, 8, 9] @ deletes [6, 9, 8]);
         r \<leftarrow> RangeQuery t (Some 2) (Some 3);
         xs \<leftarrow> ScanAll t;
         Some (r, range_of_scan (comparator t) 2 3 xs) })
   = Some (Inr [], [\<lparr>Key = 2, Value = 20\<rparr>])"
  by code_simp


end
